theory Spec2Isabelle
  imports Main
begin

section \<open>The edge store interface of \<open>torch_geometric/data/materialized_graph.py\<close>\<close>

text \<open>
  The source file declares the enum \<open>EdgeLayout\<close>, the dataclass \<open>EdgeAttr\<close> and the
  abstract class \<open>MaterializedGraph\<close>. The class has two abstract hooks,
  \<open>_put_edge_index\<close> and \<open>_get_edge_index\<close>, and public wrappers that cast their loosely
  typed arguments to an \<open>EdgeAttr\<close> before they call a hook. A Python method that may
  raise and may mutate \<open>self\<close> is a function from the state to an outcome
  (\<open>Inl\<close> the exception, \<open>Inr\<close> the returned value) paired with the state afterwards.
\<close>

subsection \<open>Data model\<close>

datatype EdgeLayout = COO | CSC | CSR | LIL

text \<open>
  The dataclass \<open>EdgeAttr\<close>: two fields, each \<open>Optional\<close> with default \<open>None\<close>. The type
  of an edge type is \<open>Any\<close> in the source and a type parameter here.
\<close>

record 'et EdgeAttr =
  layout :: "EdgeLayout option"
  edge_type :: "'et option"

text \<open>The exceptions that the source raises, or that a call of the dataclass raises.\<close>

datatype error =
    AttributeError        \<comment> \<open>"An edge layout is required to store an edge index, ..."\<close>
  | TypeError             \<comment> \<open>a call of \<open>EdgeAttr(...)\<close> whose arguments do not bind\<close>
  | NotImplementedError

text \<open>
  The values that a caller passes in \<open>*args\<close> and \<open>**kwargs\<close>: \<open>None\<close>, a layout, an edge
  type, or a key that has already been built.
\<close>

datatype 'et pyval =
    PyNone
  | PyLayout EdgeLayout
  | PyEdgeType 'et
  | PyAttr "'et EdgeAttr"

type_synonym 'et pyargs = "'et pyval list"
type_synonym 'et pykwargs = "(string \<times> 'et pyval) list"

type_synonym ('a, 's) outcome = "(error + 'a) \<times> 's"

subsection \<open>The constructor of the dataclass\<close>

text \<open>
  \<open>@dataclass\<close> generates \<open>__init__(self, layout=None, edge_type=None)\<close>. Python binds
  positional arguments to the parameters in this order and keyword arguments by name; a
  third positional argument, an unknown keyword, or a parameter that receives two values
  is a \<open>TypeError\<close>. The two slots below hold the value bound to each parameter, if any.
\<close>

fun bind_positional :: "'et pyargs \<Rightarrow> error + ('et pyval option \<times> 'et pyval option)" where
  "bind_positional [] = Inr (None, None)"
| "bind_positional [a] = Inr (Some a, None)"
| "bind_positional [a, b] = Inr (Some a, Some b)"
| "bind_positional (a # b # c # rest) = Inl TypeError"

fun bind_keywords ::
  "'et pykwargs \<Rightarrow> 'et pyval option \<times> 'et pyval option \<Rightarrow>
   error + ('et pyval option \<times> 'et pyval option)" where
  "bind_keywords [] slots = Inr slots"
| "bind_keywords ((name, v) # rest) (l, t) =
     (if name = ''layout'' then
        (case l of None \<Rightarrow> bind_keywords rest (Some v, t) | Some _ \<Rightarrow> Inl TypeError)
      else if name = ''edge_type'' then
        (case t of None \<Rightarrow> bind_keywords rest (l, Some v) | Some _ \<Rightarrow> Inl TypeError)
      else Inl TypeError)"

text \<open>
  The fields are declared \<open>Optional[EdgeLayout]\<close> and \<open>Optional[Any]\<close>. The record is typed
  accordingly, so a value of another kind in a slot is outside the declared types; the
  dataclass itself performs no run-time check, and the model reports \<open>TypeError\<close> for such
  a call instead of building an ill-typed record. An unbound parameter takes its default
  \<open>None\<close>.
\<close>

fun layout_field :: "'et pyval option \<Rightarrow> error + EdgeLayout option" where
  "layout_field None = Inr None"
| "layout_field (Some PyNone) = Inr None"
| "layout_field (Some (PyLayout l)) = Inr (Some l)"
| "layout_field (Some _) = Inl TypeError"

fun edge_type_field :: "'et pyval option \<Rightarrow> error + 'et option" where
  "edge_type_field None = Inr None"
| "edge_type_field (Some PyNone) = Inr None"
| "edge_type_field (Some (PyEdgeType t)) = Inr (Some t)"
| "edge_type_field (Some _) = Inl TypeError"

definition EdgeAttr_init :: "'et pyargs \<Rightarrow> 'et pykwargs \<Rightarrow> error + 'et EdgeAttr" where
  "EdgeAttr_init args kwargs =
     (case bind_positional args of
        Inl e \<Rightarrow> Inl e
      | Inr slots \<Rightarrow>
          (case bind_keywords kwargs slots of
             Inl e \<Rightarrow> Inl e
           | Inr (l, t) \<Rightarrow>
               (case layout_field l of
                  Inl e \<Rightarrow> Inl e
                | Inr lv \<Rightarrow>
                    (case edge_type_field t of
                       Inl e \<Rightarrow> Inl e
                     | Inr tv \<Rightarrow> Inr \<lparr>layout = lv, edge_type = tv\<rparr>))))"

subsection \<open>Key casting\<close>

text \<open>
  Modelled from the spec: \<open>CastMixin.cast\<close> of \<open>torch_geometric/utils/mixin.py\<close>, which
  the dataclass inherits, is not among the sources. The spec requires that the cast
  builds a full key from a bundle of positional arguments and a partial dictionary,
  fills the fields that are not given with \<open>None\<close>, has no side effect and does not fail on
  well-formed input. The source passes a key that is already cast to \<open>put_edge_index\<close> and
  \<open>get_edge_index\<close> (in \<open>__setitem__\<close> and \<open>__getitem__\<close>), which cast again: a single
  positional argument that is a key is therefore returned as it is. Every other bundle
  goes to the constructor of the dataclass.
\<close>

fun cast :: "'et pyargs \<Rightarrow> 'et pykwargs \<Rightarrow> error + 'et EdgeAttr" where
  "cast [PyAttr a] [] = Inr a"
| "cast args kwargs = EdgeAttr_init args kwargs"

text \<open>
  A bundle is well formed when it is a single key, or when it binds to the constructor:
  at most two positional arguments, keywords among the two field names, no field given
  twice, and every value of the type its field declares.
\<close>

fun layout_value :: "'et pyval \<Rightarrow> bool" where
  "layout_value PyNone = True"
| "layout_value (PyLayout l) = True"
| "layout_value _ = False"

fun edge_type_value :: "'et pyval \<Rightarrow> bool" where
  "edge_type_value PyNone = True"
| "edge_type_value (PyEdgeType t) = True"
| "edge_type_value _ = False"

fun keywords_ok :: "'et pykwargs \<Rightarrow> bool \<Rightarrow> bool \<Rightarrow> bool" where
  "keywords_ok [] has_layout has_type = True"
| "keywords_ok ((name, v) # rest) has_layout has_type =
     (if name = ''layout'' then \<not> has_layout \<and> layout_value v \<and> keywords_ok rest True has_type
      else if name = ''edge_type'' then
        \<not> has_type \<and> edge_type_value v \<and> keywords_ok rest has_layout True
      else False)"

fun well_formed :: "'et pyargs \<Rightarrow> 'et pykwargs \<Rightarrow> bool" where
  "well_formed [PyAttr a] [] = True"
| "well_formed [] kwargs = keywords_ok kwargs False False"
| "well_formed [a] kwargs = (layout_value a \<and> keywords_ok kwargs True False)"
| "well_formed [a, b] kwargs =
     (layout_value a \<and> edge_type_value b \<and> keywords_ok kwargs True True)"
| "well_formed (a # b # c # rest) kwargs = False"

subsection \<open>The wrappers of \<open>MaterializedGraph\<close>\<close>

text \<open>
  The class is taken with its default \<open>edge_attr_cls = EdgeAttr\<close>. The hooks are
  parameters: a subclass supplies them. \<open>_put_edge_index\<close> is annotated
  \<open>-> bool\<close>, and the body of the abstract method returns \<open>None\<close>, so the returned value is
  a \<open>bool option\<close>. \<open>_get_edge_index\<close> returns an edge index or \<open>None\<close>.
\<close>

type_synonym ('v, 'et, 's) put_hook = "'v \<Rightarrow> 'et EdgeAttr \<Rightarrow> 's \<Rightarrow> (bool option, 's) outcome"
type_synonym ('v, 'et, 's) get_hook = "'et EdgeAttr \<Rightarrow> 's \<Rightarrow> ('v option, 's) outcome"

text \<open>The bodies that the abstract class itself gives to the hooks: \<open>return None\<close>.\<close>

definition abstract_put_edge_index :: "('v, 'et, 's) put_hook" where
  "abstract_put_edge_index edge_index edge_attr s = (Inr None, s)"

definition abstract_get_edge_index :: "('v, 'et, 's) get_hook" where
  "abstract_get_edge_index edge_attr s = (Inr None, s)"

text \<open>
  \<open>put_edge_index\<close> casts, raises \<open>AttributeError\<close> when \<open>not edge_attr.layout\<close>, casts once
  more and calls the hook. A member of an \<open>Enum\<close> is truthy, so \<open>not edge_attr.layout\<close>
  holds exactly when the field is \<open>None\<close>.
\<close>

definition put_edge_index ::
  "('v, 'et, 's) put_hook \<Rightarrow> 'v \<Rightarrow> 'et pyargs \<Rightarrow> 'et pykwargs \<Rightarrow> 's \<Rightarrow> (bool option, 's) outcome"
where
  "put_edge_index hook edge_index args kwargs s =
     (case cast args kwargs of
        Inl e \<Rightarrow> (Inl e, s)
      | Inr edge_attr \<Rightarrow>
          if layout edge_attr = None then (Inl AttributeError, s)
          else (case cast args kwargs of
                  Inl e \<Rightarrow> (Inl e, s)
                | Inr edge_attr' \<Rightarrow> hook edge_index edge_attr' s))"

definition get_edge_index ::
  "('v, 'et, 's) get_hook \<Rightarrow> 'et pyargs \<Rightarrow> 'et pykwargs \<Rightarrow> 's \<Rightarrow> ('v option, 's) outcome"
where
  "get_edge_index hook args kwargs s =
     (case cast args kwargs of
        Inl e \<Rightarrow> (Inl e, s)
      | Inr edge_attr \<Rightarrow> hook edge_attr s)"

text \<open>
  \<open>sample\<close>: the argument is a tensor of node ids or a dictionary from a type to such a
  tensor. The body is \<open>return None\<close>.
\<close>

datatype 'et input_nodes =
    Nodes "int list"
  | NodesByType "('et \<times> int list) list"

definition sample ::
  "'et input_nodes \<Rightarrow> 'et pyargs \<Rightarrow> 'et pykwargs \<Rightarrow> 's \<Rightarrow> ('r option, 's) outcome" where
  "sample input_nodes args kwargs s = (Inr None, s)"

text \<open>
  The mapping protocol. \<open>__setitem__\<close> casts the key and calls \<open>put_edge_index(value, key)\<close>,
  whose result it drops; \<open>__getitem__\<close> casts the key and returns
  \<open>get_edge_index(key)\<close>. The other three methods raise.
\<close>

definition setitem ::
  "('v, 'et, 's) put_hook \<Rightarrow> 'et pyval \<Rightarrow> 'v \<Rightarrow> 's \<Rightarrow> (unit, 's) outcome" where
  "setitem hook key v s =
     (case cast [key] [] of
        Inl e \<Rightarrow> (Inl e, s)
      | Inr key' \<Rightarrow>
          (case put_edge_index hook v [PyAttr key'] [] s of
             (Inl e, s') \<Rightarrow> (Inl e, s')
           | (Inr r, s') \<Rightarrow> (Inr (), s')))"

definition getitem :: "('v, 'et, 's) get_hook \<Rightarrow> 'et pyval \<Rightarrow> 's \<Rightarrow> ('v option, 's) outcome" where
  "getitem hook key s =
     (case cast [key] [] of
        Inl e \<Rightarrow> (Inl e, s)
      | Inr key' \<Rightarrow> get_edge_index hook [PyAttr key'] [] s)"

definition delitem :: "'et pyval \<Rightarrow> 's \<Rightarrow> (unit, 's) outcome" where
  "delitem key s = (Inl NotImplementedError, s)"

definition iter :: "'s \<Rightarrow> ('et EdgeAttr list, 's) outcome" where
  "iter s = (Inl NotImplementedError, s)"

definition len :: "'s \<Rightarrow> (nat, 's) outcome" where
  "len s = (Inl NotImplementedError, s)"

subsection \<open>A store behind the hooks\<close>

text \<open>
  Modelled from the spec: no subclass that implements \<open>_put_edge_index\<close> and
  \<open>_get_edge_index\<close> is among the sources. The spec describes the store as a mapping from
  keys to edge indices; an insert stores the edge index under the key and replaces any
  earlier value, and a lookup returns the stored value normalized to COO, or \<open>None\<close> when
  the key is absent. The spec reserves the result \<open>False\<close> of an insert for a rejection
  by the backend; this store rejects nothing and returns \<open>True\<close>.

  Modelled from the spec: the type \<open>EdgeTensorType\<close> of \<open>torch_geometric/typing.py\<close> is
  not among the sources. The spec gives its forms: coordinate pairs (row, col) for COO,
  a pair of an index pointer and indices for CSC and CSR, one adjacency list per row for
  LIL.
\<close>

datatype EdgeTensorType =
    Coo "(int \<times> int) list"
  | Compressed "int list" "int list"
  | ListOfLists "int list list"

type_synonym 'et store = "'et EdgeAttr \<rightharpoonup> EdgeTensorType"

text \<open>
  Modelled from the spec: the conversion to COO. In a compressed form the entries of the
  index array between two neighbouring pointers belong to one row (CSR) or one column
  (CSC): \<open>expand_ptr\<close> writes the number of the row once for each of its entries.
  \<open>number_rows\<close> pairs each entry of an adjacency list with the number of its row. A
  value that does not have the form of its layout is returned as it is.
\<close>

fun expand_ptr :: "int list \<Rightarrow> int \<Rightarrow> int list" where
  "expand_ptr (p # q # ps) i = replicate (nat (q - p)) i @ expand_ptr (q # ps) (i + 1)"
| "expand_ptr ps i = []"

fun number_rows :: "int list list \<Rightarrow> int \<Rightarrow> (int \<times> int) list" where
  "number_rows [] i = []"
| "number_rows (r # rs) i = map (Pair i) r @ number_rows rs (i + 1)"

fun to_coo :: "EdgeLayout \<Rightarrow> EdgeTensorType \<Rightarrow> EdgeTensorType" where
  "to_coo COO (Coo es) = Coo es"
| "to_coo CSR (Compressed ptr idx) = Coo (zip (expand_ptr ptr 0) idx)"
| "to_coo CSC (Compressed ptr idx) = Coo (zip idx (expand_ptr ptr 0))"
| "to_coo LIL (ListOfLists rs) = Coo (number_rows rs 0)"
| "to_coo l v = v"

text \<open>
  A value fits a layout when it has the form of the layout; a pointer array starts at
  zero, does not decrease and ends at the number of indices.
\<close>

definition valid_ptr :: "int list \<Rightarrow> nat \<Rightarrow> bool" where
  "valid_ptr ptr n = (ptr \<noteq> [] \<and> hd ptr = 0 \<and> sorted ptr \<and> last ptr = int n)"

fun fits :: "EdgeLayout \<Rightarrow> EdgeTensorType \<Rightarrow> bool" where
  "fits COO (Coo es) = True"
| "fits CSR (Compressed ptr idx) = valid_ptr ptr (length idx)"
| "fits CSC (Compressed ptr idx) = valid_ptr ptr (length idx)"
| "fits LIL (ListOfLists rs) = True"
| "fits l v = False"

text \<open>
  The edges that a value denotes under a layout, read off position by position: entry
  \<open>j\<close> of a compressed index array belongs to the row whose pointer interval contains
  \<open>j\<close>, which is the number of pointers after the first that are at most \<open>j\<close>.
\<close>

definition owner :: "int list \<Rightarrow> nat \<Rightarrow> int" where
  "owner ptr j = int (length (filter (\<lambda>p. p \<le> int j) (tl ptr)))"

fun edges :: "EdgeLayout \<Rightarrow> EdgeTensorType \<Rightarrow> (int \<times> int) list" where
  "edges COO (Coo es) = es"
| "edges CSR (Compressed ptr idx) = map (\<lambda>j. (owner ptr j, idx ! j)) [0..<length idx]"
| "edges CSC (Compressed ptr idx) = map (\<lambda>j. (idx ! j, owner ptr j)) [0..<length idx]"
| "edges LIL (ListOfLists rs) =
     concat (map (\<lambda>i. map (Pair (int i)) (rs ! i)) [0..<length rs])"
| "edges l v = []"

text \<open>
  The two hooks of the store. A lookup converts by the layout of the key; a value under
  a key without layout, which \<open>put_edge_index\<close> never stores, is returned as it is.
\<close>

definition store_put :: "(EdgeTensorType, 'et, 'et store) put_hook" where
  "store_put edge_index edge_attr s = (Inr (Some True), s(edge_attr \<mapsto> edge_index))"

definition store_get :: "(EdgeTensorType, 'et, 'et store) get_hook" where
  "store_get edge_attr s =
     (case s edge_attr of
        None \<Rightarrow> (Inr None, s)
      | Some v \<Rightarrow>
          (case layout edge_attr of
             None \<Rightarrow> (Inr (Some v), s)
           | Some l \<Rightarrow> (Inr (Some (to_coo l v)), s)))"

text \<open>
  The calls that insert: \<open>put_edge_index(edge_index, *args, **kwargs)\<close> and the assignment
  \<open>store[key] = value\<close>. \<open>key_of_call\<close> is the key that the call casts its arguments to, and
  \<open>run_calls\<close> runs a sequence of such calls; a call that raises leaves the store as it was.
\<close>

datatype 'et call =
    Put EdgeTensorType "'et pyargs" "'et pykwargs"
  | SetItem "'et pyval" EdgeTensorType

fun key_of_call :: "'et call \<Rightarrow> error + 'et EdgeAttr" where
  "key_of_call (Put e args kwargs) = cast args kwargs"
| "key_of_call (SetItem key v) = cast [key] []"

fun run_call :: "'et call \<Rightarrow> 'et store \<Rightarrow> 'et store" where
  "run_call (Put e args kwargs) s = snd (put_edge_index store_put e args kwargs s)"
| "run_call (SetItem key v) s = snd (setitem store_put key v s)"

fun run_calls :: "'et call list \<Rightarrow> 'et store \<Rightarrow> 'et store" where
  "run_calls [] s = s"
| "run_calls (c # cs) s = run_calls cs (run_call c s)"

text \<open>
  Modelled from the spec: the \<open>sample\<close> of the spec hands its input to an external sampler
  and returns the output of the sampler unchanged.
\<close>

definition sample_as_specified ::
  "('et input_nodes \<Rightarrow> 'r) \<Rightarrow> 'et input_nodes \<Rightarrow> 'et pyargs \<Rightarrow> 'et pykwargs \<Rightarrow> 's
   \<Rightarrow> ('r option, 's) outcome" where
  "sample_as_specified sampler input_nodes args kwargs s = (Inr (Some (sampler input_nodes)), s)"

text \<open>
  Modelled from the spec: with an empty sequence of input nodes the \<open>sample\<close> of the spec
  returns an empty result, which is a result like any other, and does not call the
  sampler. The empty result is a parameter, as the results of the sampler are opaque.
\<close>

definition sample_empty_as_specified ::
  "'r \<Rightarrow> 'et pyargs \<Rightarrow> 'et pykwargs \<Rightarrow> 's \<Rightarrow> ('r option, 's) outcome" where
  "sample_empty_as_specified empty_result args kwargs s = (Inr (Some empty_result), s)"

text \<open>Dropping the value that a call returns, as a statement that ignores it does.\<close>

fun drop_result :: "('a, 's) outcome \<Rightarrow> (unit, 's) outcome" where
  "drop_result (Inl e, s) = (Inl e, s)"
| "drop_result (Inr r, s) = (Inr (), s)"

section \<open>Properties\<close>

subsection \<open>Facts about the cast\<close>

lemma put_edge_index_cast:
  "cast args kwargs = Inr k \<Longrightarrow>
   put_edge_index hook e args kwargs s =
     (if layout k = None then (Inl AttributeError, s) else hook e k s)"
  by (simp add: put_edge_index_def)

lemma put_edge_index_fail:
  "cast args kwargs = Inl err \<Longrightarrow> put_edge_index hook e args kwargs s = (Inl err, s)"
  by (simp add: put_edge_index_def)

lemma get_edge_index_cast:
  "cast args kwargs = Inr k \<Longrightarrow> get_edge_index hook args kwargs s = hook k s"
  by (simp add: get_edge_index_def)

lemma get_edge_index_fail:
  "cast args kwargs = Inl err \<Longrightarrow> get_edge_index hook args kwargs s = (Inl err, s)"
  by (simp add: get_edge_index_def)

lemma setitem_cast:
  "cast [key] [] = Inr k \<Longrightarrow>
   setitem hook key v s = drop_result (put_edge_index hook v [PyAttr k] [] s)"
  by (cases "put_edge_index hook v [PyAttr k] [] s" rule: drop_result.cases)
    (simp_all add: setitem_def)

lemma setitem_fail: "cast [key] [] = Inl err \<Longrightarrow> setitem hook key v s = (Inl err, s)"
  by (simp add: setitem_def)

lemma snd_drop_result [simp]: "snd (drop_result r) = snd r"
  by (cases r rule: drop_result.cases) simp_all

text \<open>
  Under \<open>keywords_ok\<close> the keywords bind like a dictionary lookup: a slot that a
  positional argument has filled keeps its value, and an empty slot takes the value of
  its keyword, if there is one.
\<close>

lemma bind_keywords_map_of:
  "keywords_ok kwargs (l \<noteq> None) (t \<noteq> None) \<Longrightarrow>
   bind_keywords kwargs (l, t) =
     Inr (if l = None then map_of kwargs ''layout'' else l,
          if t = None then map_of kwargs ''edge_type'' else t)
   \<and> (\<forall>v. map_of kwargs ''layout'' = Some v \<longrightarrow> layout_value v)
   \<and> (\<forall>v. map_of kwargs ''edge_type'' = Some v \<longrightarrow> edge_type_value v)"
proof (induction kwargs arbitrary: l t)
  case Nil
  then show ?case by simp
next
  case (Cons kv kwargs)
  obtain name v where kv: "kv = (name, v)" by (cases kv)
  show ?case
  proof (cases "name = ''layout''")
    case True
    with Cons.prems kv have l: "l = None" and v: "layout_value v"
      and ok: "keywords_ok kwargs (Some v \<noteq> None) (t \<noteq> None)"
      by simp_all
    from Cons.IH [OF ok] True kv l v show ?thesis by simp
  next
    case False
    note not_layout = this
    show ?thesis
    proof (cases "name = ''edge_type''")
      case True
      with not_layout Cons.prems kv have t: "t = None" and v: "edge_type_value v"
        and ok: "keywords_ok kwargs (l \<noteq> None) (Some v \<noteq> None)"
        by simp_all
      from Cons.IH [OF ok] True kv t v show ?thesis by simp
    next
      case False
      with not_layout Cons.prems kv show ?thesis by simp
    qed
  qed
qed

lemma keywords_ok_once:
  "keywords_ok kwargs has_layout has_type \<Longrightarrow>
   (has_layout \<longrightarrow> map_of kwargs ''layout'' = None)
   \<and> (has_type \<longrightarrow> map_of kwargs ''edge_type'' = None)"
  by (induction kwargs has_layout has_type rule: keywords_ok.induct)
    (auto split: if_splits)

lemma layout_field_value:
  "(\<forall>a. l = Some a \<longrightarrow> layout_value a) \<Longrightarrow>
   \<exists>lv. layout_field l = Inr lv \<and> (l = None \<longrightarrow> lv = None)
     \<and> (\<forall>x. l = Some (PyLayout x) \<longrightarrow> lv = Some x)"
  by (cases l rule: layout_field.cases) simp_all

lemma edge_type_field_value:
  "(\<forall>a. t = Some a \<longrightarrow> edge_type_value a) \<Longrightarrow>
   \<exists>tv. edge_type_field t = Inr tv \<and> (t = None \<longrightarrow> tv = None)
     \<and> (\<forall>x. t = Some (PyEdgeType x) \<longrightarrow> tv = Some x)"
  by (cases t rule: edge_type_field.cases) simp_all

lemma EdgeAttr_init_fields:
  assumes "bind_positional args = Inr (l, t)"
    and "keywords_ok kwargs (l \<noteq> None) (t \<noteq> None)"
    and "\<forall>a. l = Some a \<longrightarrow> layout_value a"
    and "\<forall>a. t = Some a \<longrightarrow> edge_type_value a"
  shows "\<exists>k. EdgeAttr_init args kwargs = Inr k
     \<and> (l = None \<and> map_of kwargs ''layout'' = None \<longrightarrow> layout k = None)
     \<and> (t = None \<and> map_of kwargs ''edge_type'' = None \<longrightarrow> edge_type k = None)
     \<and> (\<forall>x. l = Some (PyLayout x) \<or> map_of kwargs ''layout'' = Some (PyLayout x)
           \<longrightarrow> layout k = Some x)
     \<and> (\<forall>x. t = Some (PyEdgeType x) \<or> map_of kwargs ''edge_type'' = Some (PyEdgeType x)
           \<longrightarrow> edge_type k = Some x)"
proof -
  define l' where "l' = (if l = None then map_of kwargs ''layout'' else l)"
  define t' where "t' = (if t = None then map_of kwargs ''edge_type'' else t)"
  from bind_keywords_map_of [OF assms(2)]
  have b: "bind_keywords kwargs (l, t) = Inr (l', t')"
    and kl: "\<forall>v. map_of kwargs ''layout'' = Some v \<longrightarrow> layout_value v"
    and kt: "\<forall>v. map_of kwargs ''edge_type'' = Some v \<longrightarrow> edge_type_value v"
    by (simp_all add: l'_def t'_def)
  from keywords_ok_once [OF assms(2)]
  have once_l: "l \<noteq> None \<longrightarrow> map_of kwargs ''layout'' = None"
    and once_t: "t \<noteq> None \<longrightarrow> map_of kwargs ''edge_type'' = None"
    by simp_all
  have "\<forall>a. l' = Some a \<longrightarrow> layout_value a"
    using assms(3) kl by (simp add: l'_def)
  from layout_field_value [OF this] obtain lv where
    lv: "layout_field l' = Inr lv" "l' = None \<longrightarrow> lv = None"
      "\<forall>x. l' = Some (PyLayout x) \<longrightarrow> lv = Some x" by blast
  have "\<forall>a. t' = Some a \<longrightarrow> edge_type_value a"
    using assms(4) kt by (simp add: t'_def)
  from edge_type_field_value [OF this] obtain tv where
    tv: "edge_type_field t' = Inr tv" "t' = None \<longrightarrow> tv = None"
      "\<forall>x. t' = Some (PyEdgeType x) \<longrightarrow> tv = Some x" by blast
  have "EdgeAttr_init args kwargs = Inr \<lparr>layout = lv, edge_type = tv\<rparr>"
    by (simp add: EdgeAttr_init_def assms(1) b lv(1) tv(1))
  moreover have "l = None \<and> map_of kwargs ''layout'' = None \<longrightarrow> lv = None"
    using lv(2) by (simp add: l'_def)
  moreover have "t = None \<and> map_of kwargs ''edge_type'' = None \<longrightarrow> tv = None"
    using tv(2) by (simp add: t'_def)
  moreover have "\<forall>x. l = Some (PyLayout x) \<or> map_of kwargs ''layout'' = Some (PyLayout x)
      \<longrightarrow> lv = Some x"
    using lv(3) once_l by (auto simp: l'_def)
  moreover have "\<forall>x. t = Some (PyEdgeType x) \<or> map_of kwargs ''edge_type'' = Some (PyEdgeType x)
      \<longrightarrow> tv = Some x"
    using tv(3) once_t by (auto simp: t'_def)
  ultimately show ?thesis by simp
qed

lemma well_formed_single:
  "\<forall>x. a \<noteq> PyAttr x \<Longrightarrow>
   well_formed [a] kwargs = (layout_value a \<and> keywords_ok kwargs True False)"
  by (cases a; cases kwargs) simp_all

lemma cast_well_formed:
  assumes "well_formed args kwargs"
  shows "\<exists>k. cast args kwargs = Inr k
     \<and> (args = [] \<and> map_of kwargs ''layout'' = None \<longrightarrow> layout k = None)
     \<and> (length args \<le> 1 \<and> (\<forall>a. args \<noteq> [PyAttr a]) \<and> map_of kwargs ''edge_type'' = None
          \<longrightarrow> edge_type k = None)
     \<and> (\<forall>x. (\<exists>rest. args = PyLayout x # rest) \<or> map_of kwargs ''layout'' = Some (PyLayout x)
          \<longrightarrow> layout k = Some x)
     \<and> (\<forall>x. (\<exists>a. args = [a, PyEdgeType x]) \<or> map_of kwargs ''edge_type'' = Some (PyEdgeType x)
          \<longrightarrow> edge_type k = Some x)
     \<and> (\<forall>a. args = [PyAttr a] \<longrightarrow> k = a)"
proof (cases "\<exists>a. args = [PyAttr a] \<and> kwargs = []")
  case True
  then show ?thesis by auto
next
  case False
  then have c: "cast args kwargs = EdgeAttr_init args kwargs"
    by (cases "(args, kwargs)" rule: cast.cases) simp_all
  from assms False have no_key: "\<forall>a. args \<noteq> [PyAttr a]"
    by (cases "(args, kwargs)" rule: well_formed.cases) auto
  have "\<exists>l t. bind_positional args = Inr (l, t)
      \<and> keywords_ok kwargs (l \<noteq> None) (t \<noteq> None)
      \<and> (\<forall>a. l = Some a \<longrightarrow> layout_value a)
      \<and> (\<forall>a. t = Some a \<longrightarrow> edge_type_value a)
      \<and> (args = [] \<longrightarrow> l = None)
      \<and> (length args \<le> 1 \<longrightarrow> t = None)
      \<and> (\<forall>a rest. args = a # rest \<longrightarrow> l = Some a)
      \<and> (\<forall>a b. args = [a, b] \<longrightarrow> t = Some b)"
  proof (cases args rule: bind_positional.cases)
    case 1
    with assms show ?thesis by simp
  next
    case (2 a)
    with assms no_key have "layout_value a \<and> keywords_ok kwargs True False"
      by (simp add: well_formed_single)
    with 2 show ?thesis by simp
  next
    case (3 a b)
    with assms show ?thesis by simp
  next
    case (4 a b c rest)
    with assms show ?thesis by simp
  qed
  then obtain l t where b: "bind_positional args = Inr (l, t)"
    and ok: "keywords_ok kwargs (l \<noteq> None) (t \<noteq> None)"
    and lv: "\<forall>a. l = Some a \<longrightarrow> layout_value a"
    and tv: "\<forall>a. t = Some a \<longrightarrow> edge_type_value a"
    and l_none: "args = [] \<longrightarrow> l = None"
    and t_none: "length args \<le> 1 \<longrightarrow> t = None"
    and l_some: "\<forall>a rest. args = a # rest \<longrightarrow> l = Some a"
    and t_some: "\<forall>a b. args = [a, b] \<longrightarrow> t = Some b"
    by blast
  from EdgeAttr_init_fields [OF b ok lv tv] obtain k where
    k: "EdgeAttr_init args kwargs = Inr k"
    and f1: "l = None \<and> map_of kwargs ''layout'' = None \<longrightarrow> layout k = None"
    and f2: "t = None \<and> map_of kwargs ''edge_type'' = None \<longrightarrow> edge_type k = None"
    and f3: "\<forall>x. l = Some (PyLayout x) \<or> map_of kwargs ''layout'' = Some (PyLayout x)
           \<longrightarrow> layout k = Some x"
    and f4: "\<forall>x. t = Some (PyEdgeType x) \<or> map_of kwargs ''edge_type'' = Some (PyEdgeType x)
           \<longrightarrow> edge_type k = Some x"
    by blast
  have "args = [] \<and> map_of kwargs ''layout'' = None \<longrightarrow> layout k = None"
    using f1 l_none by simp
  moreover have "length args \<le> 1 \<and> (\<forall>a. args \<noteq> [PyAttr a]) \<and> map_of kwargs ''edge_type'' = None
          \<longrightarrow> edge_type k = None"
    using f2 t_none by simp
  moreover have "\<forall>x. (\<exists>rest. args = PyLayout x # rest) \<or> map_of kwargs ''layout'' = Some (PyLayout x)
          \<longrightarrow> layout k = Some x"
    using f3 l_some by auto
  moreover have "\<forall>x. (\<exists>a. args = [a, PyEdgeType x]) \<or> map_of kwargs ''edge_type'' = Some (PyEdgeType x)
          \<longrightarrow> edge_type k = Some x"
    using f4 t_some by auto
  ultimately show ?thesis using c k no_key by simp
qed

subsection \<open>Facts about the store\<close>

lemma run_call_other_key: "key_of_call c \<noteq> Inr k \<Longrightarrow> run_call c s k = s k"
proof (cases c)
  case (Put e args kwargs)
  assume ne: "key_of_call c \<noteq> Inr k"
  show ?thesis
  proof (cases "cast args kwargs")
    case (Inl err)
    with Put show ?thesis by (simp add: put_edge_index_fail)
  next
    case (Inr k')
    with ne Put have "k' \<noteq> k" by simp
    with Inr Put show ?thesis by (simp add: put_edge_index_cast store_put_def)
  qed
next
  case (SetItem key v)
  assume ne: "key_of_call c \<noteq> Inr k"
  show ?thesis
  proof (cases "cast [key] []")
    case (Inl err)
    with SetItem show ?thesis by (simp add: setitem_fail)
  next
    case (Inr k')
    with ne SetItem have "k' \<noteq> k" by simp
    with Inr SetItem show ?thesis
      by (simp add: setitem_cast put_edge_index_cast store_put_def)
  qed
qed

lemma run_calls_other_key:
  "\<forall>c \<in> set cs. key_of_call c \<noteq> Inr k \<Longrightarrow> run_calls cs s k = s k"
  by (induction cs arbitrary: s) (simp_all add: run_call_other_key)

text \<open>
  The hook bodies of the abstract class are placeholders that a subclass overrides (the
  class cannot be instantiated with them): they return \<open>None\<close> and store nothing.
\<close>

lemma abstract_hooks_store_nothing:
  "cast args kwargs = Inr k \<Longrightarrow> layout k \<noteq> None \<Longrightarrow>
   put_edge_index abstract_put_edge_index e args kwargs s = (Inr None, s)
   \<and> get_edge_index abstract_get_edge_index args kwargs s = (Inr None, s)"
  by (simp add: put_edge_index_cast get_edge_index_cast abstract_put_edge_index_def
      abstract_get_edge_index_def)

text \<open>
  The invariant of the store: every key under which the inserting calls have stored a
  value has a layout, because \<open>put_edge_index\<close> raises before it reaches the hook otherwise.
\<close>

lemma run_call_layout:
  assumes "\<forall>k \<in> dom s. layout k \<noteq> None"
  shows "\<forall>k \<in> dom (run_call c s). layout k \<noteq> None"
proof -
  have put: "\<forall>k \<in> dom (snd (put_edge_index store_put e args kwargs s)). layout k \<noteq> None"
    for e and args :: "'a pyargs" and kwargs
  proof (cases "cast args kwargs")
    case (Inl err)
    with assms show ?thesis by (simp add: put_edge_index_fail)
  next
    case (Inr k')
    with assms show ?thesis by (auto simp: put_edge_index_cast store_put_def)
  qed
  show ?thesis
  proof (cases c)
    case (Put e args kwargs)
    with put show ?thesis by simp
  next
    case (SetItem key v)
    show ?thesis
    proof (cases "cast [key] []")
      case (Inl err)
      with assms SetItem show ?thesis by (simp add: setitem_fail)
    next
      case (Inr k')
      with put [of v "[PyAttr k']" "[]"] SetItem show ?thesis by (simp add: setitem_cast)
    qed
  qed
qed

lemma run_calls_layout:
  "\<forall>k \<in> dom s. layout k \<noteq> None \<Longrightarrow> \<forall>k \<in> dom (run_calls cs s). layout k \<noteq> None"
proof (induction cs arbitrary: s)
  case Nil
  then show ?case by simp
next
  case (Cons c cs)
  from Cons.prems have "\<forall>k \<in> dom (run_call c s). layout k \<noteq> None"
    by (rule run_call_layout)
  then show ?case using Cons.IH by simp
qed

subsection \<open>Facts about the conversion to COO\<close>

lemma sorted_le_last: "sorted (q # qs) \<Longrightarrow> q \<le> last (q # qs)"
proof -
  assume s: "sorted (q # qs)"
  have "last (q # qs) \<in> set (q # qs)" by (rule last_in_set) simp
  then have "last (q # qs) = q \<or> last (q # qs) \<in> set qs" by simp
  with s show ?thesis by auto
qed

lemma upto_split_at: "p \<le> q \<Longrightarrow> q \<le> n + 1 \<Longrightarrow> [p..n] = [p..q - 1] @ [q..n]"
proof -
  assume pq: "p \<le> q" and qn: "q \<le> n + 1"
  show ?thesis
  proof (cases "q \<le> n")
    case True
    with pq show ?thesis by (rule upto_split1)
  next
    case False
    with qn have "q = n + 1" by simp
    then show ?thesis by simp
  qed
qed

lemma filter_above_empty:
  "sorted (q # qs) \<Longrightarrow> j < q \<Longrightarrow> filter (\<lambda>r. r \<le> j) (q # qs) = []"
  by (auto simp: filter_empty_conv)

text \<open>
  The rows that \<open>expand_ptr\<close> writes for a sorted pointer array: position \<open>j\<close> gets the
  start row plus the number of later pointers that are at most \<open>j\<close>.
\<close>

lemma expand_ptr_filter:
  "sorted (p # ps) \<Longrightarrow>
   expand_ptr (p # ps) i =
     map (\<lambda>j. i + int (length (filter (\<lambda>q. q \<le> j) ps))) [p..last (p # ps) - 1]"
proof (induction ps arbitrary: p i)
  case Nil
  then show ?case by simp
next
  case (Cons q qs)
  from Cons.prems have pq: "p \<le> q" and sq: "sorted (q # qs)" by simp_all
  from sq have ql: "q \<le> last (q # qs)" by (rule sorted_le_last)
  let ?n = "last (q # qs) - 1"
  have split: "[p..?n] = [p..q - 1] @ [q..?n]"
    using pq ql by (intro upto_split_at) simp_all
  have "\<forall>j \<in> set [p..q - 1]. i + int (length (filter (\<lambda>r. r \<le> j) (q # qs))) = i"
    using filter_above_empty [OF sq] by simp
  then have "map (\<lambda>j. i + int (length (filter (\<lambda>r. r \<le> j) (q # qs)))) [p..q - 1]
             = map (\<lambda>j. i) [p..q - 1]"
    by (intro map_cong) simp_all
  also have "\<dots> = replicate (nat (q - p)) i"
    by (simp add: map_replicate_const)
  finally have low: "map (\<lambda>j. i + int (length (filter (\<lambda>r. r \<le> j) (q # qs)))) [p..q - 1]
             = replicate (nat (q - p)) i" .
  have high: "map (\<lambda>j. i + int (length (filter (\<lambda>r. r \<le> j) (q # qs)))) [q..?n]
             = map (\<lambda>j. (i + 1) + int (length (filter (\<lambda>r. r \<le> j) qs))) [q..?n]"
    by simp
  have "expand_ptr (p # q # qs) i = replicate (nat (q - p)) i @ expand_ptr (q # qs) (i + 1)"
    by simp
  also have "\<dots> = replicate (nat (q - p)) i
      @ map (\<lambda>j. (i + 1) + int (length (filter (\<lambda>r. r \<le> j) qs))) [q..?n]"
    using Cons.IH [OF sq, of "i + 1"] by simp
  also have "\<dots> = map (\<lambda>j. i + int (length (filter (\<lambda>r. r \<le> j) (q # qs)))) [p..?n]"
    unfolding split map_append low high ..
  finally show ?case by simp
qed

lemma upto_as_nats: "[0..int n - 1] = map int [0..<n]"
  by (induction n) (simp_all add: upto_rec2)

lemma expand_ptr_owner:
  assumes "valid_ptr ptr n"
  shows "expand_ptr ptr 0 = map (owner ptr) [0..<n]"
proof -
  from assms obtain ps where ptr: "ptr = 0 # ps"
    by (cases ptr) (auto simp: valid_ptr_def)
  from assms have s: "sorted (0 # ps)" and l: "last (0 # ps) = int n"
    by (simp_all add: valid_ptr_def ptr)
  have "expand_ptr (0 # ps) 0
        = map (\<lambda>j. 0 + int (length (filter (\<lambda>q. q \<le> j) ps))) [0..last (0 # ps) - 1]"
    using s by (rule expand_ptr_filter)
  also have "\<dots> = map (\<lambda>j. int (length (filter (\<lambda>q. q \<le> j) ps))) (map int [0..<n])"
    unfolding l upto_as_nats by simp
  also have "\<dots> = map (owner (0 # ps)) [0..<n]"
    by (simp add: owner_def comp_def)
  finally show ?thesis by (simp add: ptr)
qed

lemma zip_map_nth_right:
  "zip (map f [0..<length xs]) xs = map (\<lambda>j. (f j, xs ! j)) [0..<length xs]"
  by (rule nth_equalityI) simp_all

lemma zip_map_nth_left:
  "zip xs (map f [0..<length xs]) = map (\<lambda>j. (xs ! j, f j)) [0..<length xs]"
  by (rule nth_equalityI) simp_all

lemma number_rows_concat:
  "number_rows rs i = concat (map (\<lambda>k. map (Pair (i + int k)) (rs ! k)) [0..<length rs])"
proof (induction rs arbitrary: i)
  case Nil
  then show ?case by simp
next
  case (Cons r rs)
  have "[0..<length (r # rs)] = 0 # map Suc [0..<length rs]"
    by (simp add: upt_conv_Cons map_Suc_upt del: upt_Suc)
  then show ?case
    using Cons.IH [of "i + 1"] by (simp add: comp_def ac_simps del: upt_Suc)
qed

lemma to_coo_edges: "fits l v \<Longrightarrow> to_coo l v = Coo (edges l v)"
proof (induction l v rule: fits.induct)
  case (2 ptr idx)
  then show ?case by (simp add: expand_ptr_owner zip_map_nth_right)
next
  case (3 ptr idx)
  then show ?case by (simp add: expand_ptr_owner zip_map_nth_left)
next
  case (4 rs)
  then show ?case using number_rows_concat [of rs 0] by simp
qed simp_all

lemma to_coo_idem: "to_coo COO (to_coo l v) = to_coo l v"
  by (cases l; cases v) simp_all

section \<open>The claims\<close>

text \<open>
  C1. For every edge index and every key with a layout, \<open>put_edge_index\<close> followed by
  \<open>get_edge_index\<close> with the same arguments returns the edge index normalized to COO:
  the insert succeeds, the lookup on the store it leaves returns \<open>to_coo l e\<close>, a value
  that normalization to COO does not change any more, and when \<open>e\<close> fits the layout the
  returned value denotes the same edges as \<open>e\<close>. Shown on the store behind the hooks.
\<close>

theorem put_then_get:
  assumes "cast args kwargs = Inr k" and "layout k = Some l"
  shows "\<exists>s' r. put_edge_index store_put e args kwargs s = (Inr (Some True), s')
          \<and> get_edge_index store_get args kwargs s' = (Inr (Some r), s')
          \<and> r = to_coo l e
          \<and> to_coo COO r = to_coo l e
          \<and> (fits l e \<longrightarrow> edges COO r = edges l e)"
proof -
  have "fits l e \<longrightarrow> edges COO (to_coo l e) = edges l e"
    by (simp add: to_coo_edges)
  with assms show ?thesis
    by (simp add: put_edge_index_cast get_edge_index_cast store_put_def store_get_def
        to_coo_idem)
qed

theorem put_then_get_witness:
  "cast [PyLayout CSR, PyEdgeType (1::nat)] [] = Inr \<lparr>layout = Some CSR, edge_type = Some 1\<rparr>
   \<and> layout \<lparr>layout = Some CSR, edge_type = Some (1::nat)\<rparr> = Some CSR
   \<and> fits CSR (Compressed [0, 1, 2] [1, 2])
   \<and> (\<exists>s'. put_edge_index store_put (Compressed [0, 1, 2] [1, 2])
               [PyLayout CSR, PyEdgeType (1::nat)] [] Map.empty = (Inr (Some True), s')
          \<and> get_edge_index store_get [PyLayout CSR, PyEdgeType 1] [] s'
               = (Inr (Some (Coo [(0, 1), (1, 2)])), s'))"
proof -
  let ?k = "\<lparr>layout = Some CSR, edge_type = Some (1::nat)\<rparr>"
  have c: "cast [PyLayout CSR, PyEdgeType (1::nat)] [] = Inr ?k"
    by (simp add: EdgeAttr_init_def)
  have l: "layout ?k = Some CSR" by simp
  have f: "fits CSR (Compressed [0, 1, 2] [1, 2])"
    by (simp add: valid_ptr_def)
  have v: "to_coo CSR (Compressed [0, 1, 2] [1, 2]) = Coo [(0, 1), (1, 2)]"
    by simp
  from put_then_get [OF c l, of "Compressed [0, 1, 2] [1, 2]" Map.empty]
  show ?thesis using c l f v by auto
qed

text \<open>
  C2. For every edge index, every hook and every key whose layout is unset, whatever its
  edge type, \<open>put_edge_index\<close> raises the missing-layout error (the \<open>AttributeError\<close> of
  the source) and leaves the store unchanged; the hook is not called.
\<close>

theorem put_requires_layout:
  assumes "cast args kwargs = Inr k" and "layout k = None"
  shows "put_edge_index hook e args kwargs s = (Inl AttributeError, s)"
  using assms by (simp add: put_edge_index_cast)

theorem put_requires_layout_witness:
  "cast [] [(''edge_type'', PyEdgeType (1::nat))] = Inr \<lparr>layout = None, edge_type = Some 1\<rparr>
   \<and> layout \<lparr>layout = None, edge_type = Some (1::nat)\<rparr> = None
   \<and> put_edge_index store_put (Coo [(0, 1)]) [] [(''edge_type'', PyEdgeType (1::nat))] Map.empty
       = (Inl AttributeError, Map.empty)"
proof -
  have c: "cast [] [(''edge_type'', PyEdgeType (1::nat))]
           = Inr \<lparr>layout = None, edge_type = Some 1\<rparr>"
    by (simp add: EdgeAttr_init_def)
  have l: "layout \<lparr>layout = None, edge_type = Some (1::nat)\<rparr> = None" by simp
  show ?thesis using c l put_requires_layout [OF c l] by simp
qed

text \<open>
  C3. For every stored entry, \<open>get_edge_index\<close> returns the stored value converted to COO
  by the layout of its key, whichever layout that is, and leaves the store as it was, so
  that a second call on the resulting store returns the same value. The conversion loses
  nothing: for a value that fits its layout the result lists exactly the edges that the
  stored value denotes, in their order. Shown on the store behind the hooks; every key of
  a store that the inserting calls have built has a layout (\<open>run_calls_layout\<close>).
\<close>

theorem get_normalizes_to_coo:
  assumes "cast args kwargs = Inr k" and "layout k = Some l" and "s k = Some v"
  shows "get_edge_index store_get args kwargs s = (Inr (Some (to_coo l v)), s)
       \<and> get_edge_index store_get args kwargs (snd (get_edge_index store_get args kwargs s))
           = get_edge_index store_get args kwargs s
       \<and> (fits l v \<longrightarrow> to_coo l v = Coo (edges l v))"
proof -
  have g: "get_edge_index store_get args kwargs s = (Inr (Some (to_coo l v)), s)"
    using assms by (simp add: get_edge_index_cast store_get_def)
  have "fits l v \<longrightarrow> to_coo l v = Coo (edges l v)"
    by (simp add: to_coo_edges)
  with g show ?thesis by simp
qed

theorem get_normalizes_to_coo_witness:
  "cast [PyLayout CSC] [] = Inr \<lparr>layout = Some CSC, edge_type = (None :: nat option)\<rparr>
   \<and> layout \<lparr>layout = Some CSC, edge_type = (None :: nat option)\<rparr> = Some CSC
   \<and> [\<lparr>layout = Some CSC, edge_type = (None :: nat option)\<rparr> \<mapsto> Compressed [0, 0, 2, 3] [0, 1, 0]]
        \<lparr>layout = Some CSC, edge_type = None\<rparr> = Some (Compressed [0, 0, 2, 3] [0, 1, 0])
   \<and> fits CSC (Compressed [0, 0, 2, 3] [0, 1, 0])
   \<and> fst (get_edge_index store_get [PyLayout CSC] []
        [\<lparr>layout = Some CSC, edge_type = (None :: nat option)\<rparr> \<mapsto> Compressed [0, 0, 2, 3] [0, 1, 0]])
       = Inr (Some (Coo [(0, 1), (1, 1), (0, 2)]))
   \<and> edges CSC (Compressed [0, 0, 2, 3] [0, 1, 0]) = [(0, 1), (1, 1), (0, 2)]"
proof -
  let ?k = "\<lparr>layout = Some CSC, edge_type = (None :: nat option)\<rparr>"
  let ?v = "Compressed [0, 0, 2, 3] [0, 1, 0]"
  have c: "cast [PyLayout CSC] [] = Inr ?k"
    by (simp add: EdgeAttr_init_def)
  have l: "layout ?k = Some CSC" by simp
  have st: "[?k \<mapsto> ?v] ?k = Some ?v" by simp
  have f: "fits CSC ?v" by (simp add: valid_ptr_def)
  have v: "to_coo CSC ?v = Coo [(0, 1), (1, 1), (0, 2)]"
    by (simp add: eval_nat_numeral)
  from get_normalizes_to_coo [of "[PyLayout CSC]" "[]" ?k CSC "[?k \<mapsto> ?v]" ?v, OF c l st] f v
  have "fst (get_edge_index store_get [PyLayout CSC] [] [?k \<mapsto> ?v])
          = Inr (Some (Coo [(0, 1), (1, 1), (0, 2)]))"
    and "edges CSC ?v = [(0, 1), (1, 1), (0, 2)]"
    by simp_all
  with c l st f show ?thesis by simp
qed

text \<open>
  C4. For every key with a layout and every two edge indices, two calls of
  \<open>put_edge_index\<close> with the same arguments followed by \<open>get_edge_index\<close> return the
  second edge index converted to COO, and the store is the one that the second insert
  alone would have left: nothing of the first value is kept. Shown on the store behind
  the hooks.
\<close>

theorem put_twice_then_get:
  assumes "cast args kwargs = Inr k" and "layout k = Some l"
  shows "get_edge_index store_get args kwargs
           (snd (put_edge_index store_put e2 args kwargs
              (snd (put_edge_index store_put e1 args kwargs s))))
         = (Inr (Some (to_coo l e2)), snd (put_edge_index store_put e2 args kwargs s))"
  using assms
  by (simp add: put_edge_index_cast get_edge_index_cast store_put_def store_get_def)

theorem put_twice_then_get_witness:
  "cast [] [(''layout'', PyLayout LIL)] = Inr \<lparr>layout = Some LIL, edge_type = (None :: nat option)\<rparr>
   \<and> layout \<lparr>layout = Some LIL, edge_type = (None :: nat option)\<rparr> = Some LIL
   \<and> fst (get_edge_index store_get [] [(''layout'', PyLayout LIL)]
        (snd (put_edge_index store_put (ListOfLists [[1], [0, 2]]) [] [(''layout'', PyLayout LIL)]
           (snd (put_edge_index store_put (ListOfLists [[5, 6]]) [] [(''layout'', PyLayout LIL)]
              (Map.empty :: nat store))))))
       = Inr (Some (Coo [(0, 1), (1, 0), (1, 2)]))"
proof -
  let ?k = "\<lparr>layout = Some LIL, edge_type = (None :: nat option)\<rparr>"
  have c: "cast [] [(''layout'', PyLayout LIL)] = Inr ?k"
    by (simp add: EdgeAttr_init_def)
  have l: "layout ?k = Some LIL" by simp
  have v: "to_coo LIL (ListOfLists [[1], [0, 2]]) = Coo [(0, 1), (1, 0), (1, 2)]"
    by simp
  from put_twice_then_get [OF c l, of "ListOfLists [[1], [0, 2]]" "ListOfLists [[5, 6]]" Map.empty]
  have "fst (get_edge_index store_get [] [(''layout'', PyLayout LIL)]
        (snd (put_edge_index store_put (ListOfLists [[1], [0, 2]]) [] [(''layout'', PyLayout LIL)]
           (snd (put_edge_index store_put (ListOfLists [[5, 6]]) [] [(''layout'', PyLayout LIL)]
              (Map.empty :: nat store))))))
       = Inr (Some (Coo [(0, 1), (1, 0), (1, 2)]))"
    using v by simp
  with c l show ?thesis by simp
qed

text \<open>
  C5. For every key that no call has inserted, \<open>get_edge_index\<close> returns \<open>None\<close> and does
  not raise: after any sequence of inserting calls, by \<open>put_edge_index\<close> or by assignment,
  none of which casts its arguments to the key, the lookup of the key on the store behind
  the hooks returns \<open>None\<close> and leaves the store as it was. The hook body of the abstract
  class returns \<open>None\<close> for every key as well.
\<close>

theorem get_never_inserted:
  assumes "cast args kwargs = Inr k"
    and "\<forall>c \<in> set cs. key_of_call c \<noteq> Inr k"
  shows "get_edge_index store_get args kwargs (run_calls cs Map.empty)
           = (Inr None, run_calls cs Map.empty)
       \<and> get_edge_index abstract_get_edge_index args kwargs s = (Inr (None :: 'v option), s)"
proof -
  have "run_calls cs Map.empty k = None"
    using run_calls_other_key [OF assms(2), of Map.empty] by simp
  with assms(1) show ?thesis
    by (simp add: get_edge_index_cast store_get_def abstract_get_edge_index_def)
qed

theorem get_never_inserted_witness:
  "cast [PyLayout CSR] [] = Inr \<lparr>layout = Some CSR, edge_type = (None :: nat option)\<rparr>
   \<and> key_of_call (Put (Coo [(0, 1)]) [PyLayout COO] [])
        \<noteq> Inr \<lparr>layout = Some CSR, edge_type = (None :: nat option)\<rparr>
   \<and> key_of_call (SetItem (PyLayout CSC) (Compressed [0, 1] [0]))
        \<noteq> Inr \<lparr>layout = Some CSR, edge_type = (None :: nat option)\<rparr>
   \<and> fst (get_edge_index store_get [PyLayout CSR] []
        (run_calls [Put (Coo [(0, 1)]) [PyLayout COO] [],
                    SetItem (PyLayout CSC) (Compressed [0, 1] [0])] (Map.empty :: nat store)))
       = Inr None"
proof -
  let ?k = "\<lparr>layout = Some CSR, edge_type = (None :: nat option)\<rparr>"
  let ?cs = "[Put (Coo [(0, 1)]) [PyLayout COO] [],
              SetItem (PyLayout CSC) (Compressed [0, 1] [0])]"
  have c: "cast [PyLayout CSR] [] = Inr ?k"
    by (simp add: EdgeAttr_init_def)
  have n: "\<forall>c \<in> set ?cs. key_of_call c \<noteq> Inr ?k"
    by (simp add: EdgeAttr_init_def)
  from get_never_inserted [OF c n, where s = "()", THEN conjunct1]
  have "fst (get_edge_index store_get [PyLayout CSR] []
          (run_calls ?cs (Map.empty :: nat store))) = Inr None"
    by simp
  moreover from n have "key_of_call (Put (Coo [(0, 1)]) [PyLayout COO] []) \<noteq> Inr ?k"
    and "key_of_call (SetItem (PyLayout CSC) (Compressed [0, 1] [0])) \<noteq> Inr ?k"
    by simp_all
  ultimately show ?thesis using c by simp
qed

text \<open>
  C6. For every store and every argument, deletion, iteration and the length query raise
  \<open>NotImplementedError\<close> and leave the store unchanged.
\<close>

theorem unimplemented_mapping_methods:
  "delitem key s = (Inl NotImplementedError, s)
   \<and> iter s = (Inl NotImplementedError, s)
   \<and> len s = (Inl NotImplementedError, s)"
  by (simp add: delitem_def iter_def len_def)

text \<open>
  C7, as amended. For every input, \<open>sample\<close> returns \<open>None\<close> and leaves the store
  unchanged: no sampler takes part, and the store does no sampling.
\<close>

theorem sample_returns_none: "sample input_nodes args kwargs s = (Inr None, s)"
  by (simp add: sample_def)

text \<open>
  C7 as stated fails: for the sampler that hands back its input, the \<open>sample\<close> of the spec
  returns the input nodes \<open>[0]\<close>, and the \<open>sample\<close> of the source returns \<open>None\<close>.
\<close>

theorem sample_not_sampler_output:
  "sample (Nodes [0]) [] [] (Map.empty :: nat store)
     \<noteq> sample_as_specified id (Nodes [0]) [] [] (Map.empty :: nat store)"
  by (simp add: sample_def sample_as_specified_def)

text \<open>
  C8, as amended. With an empty sequence of input nodes, or an empty dictionary of them,
  \<open>sample\<close> returns \<open>None\<close>, for every further argument, and leaves the store unchanged;
  it calls no sampling routine.
\<close>

theorem sample_empty_input:
  "sample (Nodes []) args kwargs s = (Inr None, s)
   \<and> sample (NodesByType []) args kwargs s = (Inr None, s)"
  by (simp add: sample_def)

text \<open>
  C8 as stated fails: for the empty sequence of input nodes the \<open>sample\<close> of the spec
  returns the empty result, here the empty list of sampled nodes, and the \<open>sample\<close> of
  the source returns \<open>None\<close>, which is no result.
\<close>

theorem sample_empty_not_empty_result:
  "sample (Nodes []) [] [] (Map.empty :: nat store)
     \<noteq> sample_empty_as_specified ([] :: int list) [] [] (Map.empty :: nat store)"
  by (simp add: sample_def sample_empty_as_specified_def)

text \<open>
  C9. For every well-formed bundle of positional arguments and keywords the cast returns
  a key and does not fail. A field that the bundle does not give is \<open>None\<close>, a field that
  it gives has the given value, and a bundle that is a key already is returned as it is.
  The cast takes no store and returns none, and the two casts in \<open>put_edge_index\<close> yield
  one key: the key whose layout is checked is the key that the hook receives, and the
  store changes only as the hook changes it; \<open>get_edge_index\<close> hands the same key to its
  hook.
\<close>

theorem cast_total:
  assumes "well_formed args kwargs"
  shows "\<exists>k. cast args kwargs = Inr k
     \<and> (args = [] \<and> map_of kwargs ''layout'' = None \<longrightarrow> layout k = None)
     \<and> (length args \<le> 1 \<and> (\<forall>a. args \<noteq> [PyAttr a]) \<and> map_of kwargs ''edge_type'' = None
          \<longrightarrow> edge_type k = None)
     \<and> (\<forall>x. (\<exists>rest. args = PyLayout x # rest) \<or> map_of kwargs ''layout'' = Some (PyLayout x)
          \<longrightarrow> layout k = Some x)
     \<and> (\<forall>x. (\<exists>a. args = [a, PyEdgeType x]) \<or> map_of kwargs ''edge_type'' = Some (PyEdgeType x)
          \<longrightarrow> edge_type k = Some x)
     \<and> (\<forall>a. args = [PyAttr a] \<longrightarrow> k = a)
     \<and> put_edge_index hook e args kwargs s
         = (if layout k = None then (Inl AttributeError, s) else hook e k s)
     \<and> get_edge_index ghook args kwargs s = ghook k s"
proof -
  from cast_well_formed [OF assms] obtain k where k: "cast args kwargs = Inr k"
    and fields: "(args = [] \<and> map_of kwargs ''layout'' = None \<longrightarrow> layout k = None)
     \<and> (length args \<le> 1 \<and> (\<forall>a. args \<noteq> [PyAttr a]) \<and> map_of kwargs ''edge_type'' = None
          \<longrightarrow> edge_type k = None)
     \<and> (\<forall>x. (\<exists>rest. args = PyLayout x # rest) \<or> map_of kwargs ''layout'' = Some (PyLayout x)
          \<longrightarrow> layout k = Some x)
     \<and> (\<forall>x. (\<exists>a. args = [a, PyEdgeType x]) \<or> map_of kwargs ''edge_type'' = Some (PyEdgeType x)
          \<longrightarrow> edge_type k = Some x)
     \<and> (\<forall>a. args = [PyAttr a] \<longrightarrow> k = a)"
    by blast
  have p: "put_edge_index hook e args kwargs s
         = (if layout k = None then (Inl AttributeError, s) else hook e k s)"
    using k by (rule put_edge_index_cast)
  have g: "get_edge_index ghook args kwargs s = ghook k s"
    using k by (rule get_edge_index_cast)
  from k fields p g show ?thesis by blast
qed

theorem cast_total_witness:
  "well_formed [PyLayout COO] [(''edge_type'', PyEdgeType (7::nat))]
   \<and> cast [PyLayout COO] [(''edge_type'', PyEdgeType (7::nat))]
       = Inr \<lparr>layout = Some COO, edge_type = Some 7\<rparr>
   \<and> (\<exists>k. cast [PyLayout COO] [(''edge_type'', PyEdgeType (7::nat))] = Inr k
         \<and> layout k = Some COO \<and> edge_type k = Some 7
         \<and> get_edge_index store_get [PyLayout COO] [(''edge_type'', PyEdgeType 7)] Map.empty
             = store_get k Map.empty)"
proof -
  have w: "well_formed [PyLayout COO] [(''edge_type'', PyEdgeType (7::nat))]"
    by simp
  have c: "cast [PyLayout COO] [(''edge_type'', PyEdgeType (7::nat))]
       = Inr \<lparr>layout = Some COO, edge_type = Some 7\<rparr>"
    by (simp add: EdgeAttr_init_def)
  from cast_total [OF w, of store_put "Coo []" Map.empty store_get]
  have "\<exists>k. cast [PyLayout COO] [(''edge_type'', PyEdgeType (7::nat))] = Inr k
         \<and> layout k = Some COO \<and> edge_type k = Some 7
         \<and> get_edge_index store_get [PyLayout COO] [(''edge_type'', PyEdgeType 7)] Map.empty
             = store_get k Map.empty"
    by auto
  with w c show ?thesis by simp
qed

text \<open>
  C10. For every key and value, \<open>__setitem__(key, value)\<close> is \<open>put_edge_index(value, cast(key))\<close>
  with the returned value dropped, which is \<open>put_edge_index(value, key)\<close> as well, and
  \<open>__getitem__(key)\<close> is \<open>get_edge_index(cast(key))\<close>, which is \<open>get_edge_index(key)\<close>. An
  assignment under a key whose layout is unset raises the error that \<open>put_edge_index\<close>
  raises and leaves the store unchanged. An access returns what the hook returns for the
  key: for an absent key of the store behind the hooks, and with the hook body of the
  abstract class, it returns \<open>None\<close> and raises nothing.
\<close>

theorem mapping_access:
  assumes "cast [key] [] = Inr k"
  shows "setitem hook key v s = drop_result (put_edge_index hook v [PyAttr k] [] s)
       \<and> setitem hook key v s = drop_result (put_edge_index hook v [key] [] s)
       \<and> getitem ghook key s = get_edge_index ghook [PyAttr k] [] s
       \<and> getitem ghook key s = get_edge_index ghook [key] [] s
       \<and> getitem ghook key s = ghook k s
       \<and> (layout k = None \<longrightarrow>
            setitem hook key v s = (Inl AttributeError, s)
            \<and> put_edge_index hook v [PyAttr k] [] s = (Inl AttributeError, s))
       \<and> (st k = None \<longrightarrow> getitem store_get key st = (Inr None, st))
       \<and> getitem abstract_get_edge_index key s = (Inr (None :: EdgeTensorType option), s)"
proof -
  have a: "setitem hook key v s = drop_result (put_edge_index hook v [PyAttr k] [] s)"
    using assms by (rule setitem_cast)
  have b: "put_edge_index hook v [PyAttr k] [] s = put_edge_index hook v [key] [] s"
    using assms by (simp add: put_edge_index_cast)
  have c: "getitem ghook key s = get_edge_index ghook [PyAttr k] [] s"
    using assms by (simp add: getitem_def)
  have d: "get_edge_index ghook [PyAttr k] [] s = get_edge_index ghook [key] [] s"
    using assms by (simp add: get_edge_index_cast)
  have d': "get_edge_index ghook [PyAttr k] [] s = ghook k s"
    by (simp add: get_edge_index_cast)
  have e: "layout k = None \<longrightarrow> put_edge_index hook v [PyAttr k] [] s = (Inl AttributeError, s)"
    by (simp add: put_edge_index_cast)
  have f: "st k = None \<longrightarrow> getitem store_get key st = (Inr None, st)"
    using assms by (simp add: getitem_def get_edge_index_cast store_get_def)
  have g: "getitem abstract_get_edge_index key s = (Inr (None :: EdgeTensorType option), s)"
    using assms by (simp add: getitem_def get_edge_index_cast abstract_get_edge_index_def)
  from a b c d d' e f g show ?thesis by auto
qed

theorem mapping_access_witness:
  "cast [PyAttr \<lparr>layout = None, edge_type = Some (3::nat)\<rparr>] []
     = Inr \<lparr>layout = None, edge_type = Some 3\<rparr>
   \<and> layout \<lparr>layout = None, edge_type = Some (3::nat)\<rparr> = None
   \<and> (Map.empty :: nat store) \<lparr>layout = None, edge_type = Some 3\<rparr> = None
   \<and> setitem store_put (PyAttr \<lparr>layout = None, edge_type = Some (3::nat)\<rparr>) (Coo [(0, 1)])
        Map.empty = (Inl AttributeError, Map.empty)
   \<and> getitem store_get (PyAttr \<lparr>layout = None, edge_type = Some (3::nat)\<rparr>) Map.empty
        = (Inr None, Map.empty)"
proof -
  let ?k = "\<lparr>layout = None, edge_type = Some (3::nat)\<rparr>"
  have c: "cast [PyAttr ?k] [] = Inr ?k" by simp
  have l: "layout ?k = None" by simp
  have st: "(Map.empty :: nat store) ?k = None" by simp
  from mapping_access [OF c, of store_put "Coo [(0, 1)]" Map.empty store_get Map.empty] l st
  have "setitem store_put (PyAttr ?k) (Coo [(0, 1)]) Map.empty = (Inl AttributeError, Map.empty)"
    and "getitem store_get (PyAttr ?k) Map.empty = (Inr None, Map.empty)"
    by blast+
  with c l st show ?thesis by simp
qed

end
